theory Spec2Isabelle
  imports Complex_Main "HOL-Library.Multiset"
begin

section \<open>Word error rate (torchmetrics/functional/text/wer.py)\<close>

subsection \<open>Strings and tokenization\<close>

text \<open>
  A Python \<open>str\<close> is a sequence of Unicode code points, so a string is a list of
  natural numbers. \<open>py_str\<close> reads an ASCII literal as such a string.
\<close>

type_synonym str = "nat list"

definition py_str :: "string \<Rightarrow> str" where
  "py_str cs = map of_char cs"

text \<open>\<open>repeat_str s n\<close> is Python's \<open>s * n\<close>; it serves to write long inputs down.\<close>

fun repeat_str :: "str \<Rightarrow> nat \<Rightarrow> str" where
  "repeat_str s 0 = []"
| "repeat_str s (Suc n) = s @ repeat_str s n"

text \<open>
  The characters on which \<open>str.split()\<close> (no separator given) cuts: the code points
  for which \<open>str.isspace\<close> holds.
\<close>

definition isspace :: "nat \<Rightarrow> bool" where
  "isspace c \<longleftrightarrow>
     (9 \<le> c \<and> c \<le> 13) \<or> (28 \<le> c \<and> c \<le> 32) \<or> c = 133 \<or> c = 160 \<or> c = 5760 \<or>
     (8192 \<le> c \<and> c \<le> 8202) \<or> c = 8232 \<or> c = 8233 \<or> c = 8239 \<or> c = 8287 \<or> c = 12288"

text \<open>
  \<open>s.split()\<close>: runs of whitespace separate the words, and no empty word is produced.
  \<open>split_words word cs\<close> scans \<open>cs\<close> with the word read so far in \<open>word\<close>.
\<close>

fun split_words :: "str \<Rightarrow> str \<Rightarrow> str list" where
  "split_words word [] = (if word = [] then [] else [word])"
| "split_words word (c # cs) =
     (if isspace c
      then (if word = [] then split_words [] cs else word # split_words [] cs)
      else split_words (word @ [c]) cs)"

definition str_split :: "str \<Rightarrow> str list" where
  "str_split s = split_words [] s"

subsection \<open>The distance engine\<close>

text \<open>
  Modelled from the spec: \<open>_edit_distance\<close> is imported from
  \<open>torchmetrics/functional/text/helper.py\<close>, which is not among the sources. Section 4.1
  of the specification gives it as a table over prefixes: \<open>cell A B i j\<close> is the entry
  for the first \<open>i\<close> prediction tokens and the first \<open>j\<close> reference tokens, with
  \<open>cell(i,0) = i\<close>, \<open>cell(0,j) = j\<close>, a free diagonal step when \<open>A[i-1] = B[j-1]\<close> and
  one more than the least of the three neighbours otherwise. The result is
  \<open>cell(m,n)\<close>.
\<close>

fun cell :: "'a list \<Rightarrow> 'a list \<Rightarrow> nat \<Rightarrow> nat \<Rightarrow> nat" where
  "cell A B i 0 = i"
| "cell A B 0 j = j"
| "cell A B (Suc i) (Suc j) =
     (if A ! i = B ! j then cell A B i j
      else 1 + min (cell A B i (Suc j)) (min (cell A B (Suc i) j) (cell A B i j)))"

definition edit_distance :: "'a list \<Rightarrow> 'a list \<Rightarrow> nat" where
  "edit_distance prediction_tokens reference_tokens =
     cell prediction_tokens reference_tokens (length prediction_tokens) (length reference_tokens)"

subsection \<open>Tensors\<close>

text \<open>
  \<open>errors\<close> and \<open>total\<close> are scalar tensors of dtype \<open>torch.float\<close>, the 32-bit
  binary floating-point format: 24 significant bits, results rounded to the nearest
  representable number, a tie going to the one with an even significand. A value is
  kept as the rational number it stands for.

  \<open>round_half_even\<close> rounds to an integer. \<open>round_f32\<close> rounds a non-negative number
  to the format: at \<open>2^24\<close> and above the numbers of the format are \<open>2^e\<close> apart, with
  \<open>e\<close> the number of halvings that bring the argument below \<open>2^24\<close>; below they are
  \<open>2^-k\<close> apart, with \<open>k\<close> the number of doublings that bring the argument to \<open>2^23\<close>,
  and at most 149, the spacing of the smallest numbers of the format. The largest
  finite number of the format, just below \<open>2^128\<close>, is out of reach: a Python sequence
  has fewer than \<open>2^63\<close> elements, so every count is below \<open>2^63\<close> and every sum of
  counts below \<open>2^126\<close>. Rounding to infinity is therefore left out.
\<close>

definition round_half_even :: "rat \<Rightarrow> int" where
  "round_half_even x =
     (let f = \<lfloor>x\<rfloor>; d = x - of_int f
      in if d < 1 / 2 then f else if 1 / 2 < d then f + 1 else if even f then f else f + 1)"

function halvings :: "rat \<Rightarrow> nat" where
  "halvings x = (if x < 2 ^ 24 then 0 else Suc (halvings (x / 2)))"
  by pat_completeness auto
termination
proof (relation "measure (\<lambda>x. nat \<lfloor>x\<rfloor>)")
  fix x :: rat
  assume "\<not> x < 2 ^ 24"
  then have x: "2 \<le> x" by simp
  have "of_int \<lfloor>x / 2\<rfloor> \<le> x / 2" by (rule of_int_floor_le)
  also have "\<dots> \<le> x - 1" using x by simp
  also have "\<dots> < of_int \<lfloor>x\<rfloor>" by linarith
  finally have "\<lfloor>x / 2\<rfloor> < \<lfloor>x\<rfloor>" by simp
  moreover have "0 < \<lfloor>x\<rfloor>" using x by simp
  ultimately show "(x / 2, x) \<in> measure (\<lambda>x. nat \<lfloor>x\<rfloor>)" by simp
qed simp

declare halvings.simps [simp del]

fun doublings :: "nat \<Rightarrow> rat \<Rightarrow> nat" where
  "doublings 0 x = 0"
| "doublings (Suc n) x = (if 2 ^ 23 \<le> x then 0 else Suc (doublings n (2 * x)))"

definition round_f32 :: "rat \<Rightarrow> rat" where
  "round_f32 x =
     (if 2 ^ 24 \<le> x
      then (let e = halvings x in of_int (round_half_even (x / 2 ^ e)) * 2 ^ e)
      else (let k = doublings 149 x in of_int (round_half_even (x * 2 ^ k)) / 2 ^ k))"

text \<open>
  The accumulators only ever hold whole numbers (a whole number rounds to a whole
  number), so their values are natural numbers. \<open>to_float\<close> is the conversion of a
  Python \<open>int\<close> to the format and \<open>iadd\<close> is \<open>acc += k\<close> for a float tensor \<open>acc\<close> and a
  Python \<open>int\<close> \<open>k\<close>: the integer is converted, then added, and the sum is rounded.
\<close>

definition to_float :: "nat \<Rightarrow> nat" where
  "to_float k = nat \<lfloor>round_f32 (of_nat k)\<rfloor>"

definition iadd :: "nat \<Rightarrow> nat \<Rightarrow> nat" where
  "iadd acc k = to_float (acc + to_float k)"

text \<open>
  The quotient of two such tensors is a scalar tensor again: the rounded quotient, or
  one of the two special values that a division by zero yields. The division itself
  never raises.
\<close>

datatype tensor = Val rat | PosInf | NaN

definition true_divide :: "nat \<Rightarrow> nat \<Rightarrow> tensor" where
  "true_divide a b =
     (if b = 0 then (if a = 0 then NaN else PosInf)
      else Val (round_f32 (of_nat a / of_nat b)))"

subsection \<open>The functions of the module\<close>

datatype str_or_list = Str str | StrList "str list"

text \<open>The body of the \<open>for\<close> loop of \<open>_wer_update\<close>, over the pairs that \<open>zip\<close> yields.\<close>

fun wer_loop :: "(str \<times> str) list \<Rightarrow> nat \<Rightarrow> nat \<Rightarrow> nat \<times> nat" where
  "wer_loop [] errors total' = (errors, total')"
| "wer_loop ((prediction, reference) # pairs) errors total' =
     (let prediction_tokens = str_split prediction;
          reference_tokens = str_split reference
      in wer_loop pairs
           (iadd errors (edit_distance prediction_tokens reference_tokens))
           (iadd total' (length reference_tokens)))"

definition wer_update :: "str_or_list \<Rightarrow> str_or_list \<Rightarrow> nat \<times> nat" where
  "wer_update predictions references =
     (let predictions = (case predictions of Str s \<Rightarrow> [s] | StrList l \<Rightarrow> l);
          references = (case references of Str s \<Rightarrow> [s] | StrList l \<Rightarrow> l)
      in wer_loop (zip predictions references) 0 0)"

definition wer_compute :: "nat \<Rightarrow> nat \<Rightarrow> tensor" where
  "wer_compute errors total' = true_divide errors total'"

definition word_error_rate :: "str_or_list \<Rightarrow> str_or_list \<Rightarrow> tensor" where
  "word_error_rate predictions references =
     (case wer_update predictions references of
        (errors, total') \<Rightarrow> wer_compute errors total')"

text \<open>
  \<open>wer\<close> first calls \<open>warn\<close>, then forwards. The warning is the one effect of the
  module; the model returns the warnings issued next to the value.
\<close>

datatype category = DeprecationWarning

type_synonym warning = "string \<times> category"

definition wer :: "str_or_list \<Rightarrow> str_or_list \<Rightarrow> warning list \<times> tensor" where
  "wer predictions references =
     (let warnings =
        [(''`wer` was renamed to `word_error_rate` in v0.7 and it will be removed in v0.8'',
          DeprecationWarning)]
      in (warnings, word_error_rate predictions references))"

section \<open>Properties\<close>

subsection \<open>Rounding\<close>

lemma round_half_even_of_int: "round_half_even (of_int z) = z"
  by (simp add: round_half_even_def Let_def)

lemma round_half_even_ge_floor: "\<lfloor>x\<rfloor> \<le> round_half_even x"
  by (simp add: round_half_even_def Let_def)

lemma round_f32_small_nat:
  assumes "n < 2 ^ 24"
  shows "round_f32 (of_nat n) = of_nat n"
proof -
  define k where "k = doublings 149 (of_nat n)"
  have "(of_nat n :: rat) * 2 ^ k = of_int (int (n * 2 ^ k))"
    by simp
  then have "round_half_even (of_nat n * 2 ^ k) = int (n * 2 ^ k)"
    by (simp only: round_half_even_of_int)
  moreover have "(of_nat n :: rat) < 2 ^ 24"
    using assms by (metis of_nat_less_iff of_nat_numeral of_nat_power)
  ultimately show ?thesis
    by (simp add: round_f32_def k_def)
qed

lemma halvings_eval:
  "x < 2 ^ 24 \<Longrightarrow> halvings x = 0"
  "\<not> x < 2 ^ 24 \<Longrightarrow> halvings x = Suc (halvings (x / 2))"
  by (simp_all add: halvings.simps)

lemma doublings_numeral:
  "doublings (numeral n) x =
     (if 2 ^ 23 \<le> x then 0 else Suc (doublings (pred_numeral n) (2 * x)))"
  by (simp add: numeral_eq_Suc)

lemma floor_rat_numeral:
  "\<lfloor>numeral a / numeral b :: rat\<rfloor> = numeral a div numeral b"
  using floor_divide_of_int_eq [of "numeral a" "numeral b", where ?'a = rat] by simp

lemma round_f32_examples:
  "round_f32 16777216 = 16777216"
  "round_f32 16777217 = 16777216"
  "round_f32 16777218 = 16777218"
  "round_f32 (1 / 2) = 1 / 2"
  "round_f32 (8388608 / 8388609) = 8388607 / 8388608"
  by (simp_all add: round_f32_def halvings_eval doublings_numeral round_half_even_def Let_def
      floor_rat_numeral)

lemma round_f32_0_1_2: "round_f32 0 = 0" "round_f32 1 = 1" "round_f32 2 = 2"
  using round_f32_small_nat [of 0] round_f32_small_nat [of 1] round_f32_small_nat [of 2]
  by simp_all

lemma to_float_exact: "n \<le> 2 ^ 24 \<Longrightarrow> to_float n = n"
proof (cases "n < 2 ^ 24")
  case True
  then show ?thesis
    by (simp add: to_float_def round_f32_small_nat)
next
  case False
  assume "n \<le> 2 ^ 24"
  with False have "n = 16777216"
    by simp
  then show ?thesis
    by (simp add: to_float_def round_f32_examples)
qed

lemma to_float_examples:
  "to_float 16777217 = 16777216" "to_float 16777218 = 16777218"
  by (simp_all add: to_float_def round_f32_examples)

lemma iadd_exact: "k \<le> 2 ^ 24 \<Longrightarrow> acc + k \<le> 2 ^ 24 \<Longrightarrow> iadd acc k = acc + k"
  by (simp add: iadd_def to_float_exact)

lemma halvings_scaled: "2 ^ 23 \<le> x \<Longrightarrow> 2 ^ 23 \<le> x / 2 ^ halvings x"
proof (induction x rule: halvings.induct)
  case (1 x)
  show ?case
  proof (cases "x < 2 ^ 24")
    case True
    with "1.prems" show ?thesis
      by (simp add: halvings_eval)
  next
    case False
    then have "2 ^ 23 \<le> x / 2"
      by simp
    with False "1.IH" have "2 ^ 23 \<le> x / 2 / 2 ^ halvings (x / 2)"
      by blast
    with False show ?thesis
      by (simp add: halvings_eval)
  qed
qed

lemma round_f32_large:
  assumes "2 ^ 24 \<le> x"
  shows "1 \<le> round_f32 x"
proof -
  define e where "e = halvings x"
  have "(of_int 1 :: rat) \<le> 2 ^ 23"
    by simp
  also have "2 ^ 23 \<le> x / 2 ^ e"
    using assms halvings_scaled [of x] by (simp add: e_def)
  finally have "1 \<le> \<lfloor>x / 2 ^ e\<rfloor>"
    by (simp only: le_floor_iff)
  with round_half_even_ge_floor [of "x / 2 ^ e"] have "1 \<le> round_half_even (x / 2 ^ e)"
    by linarith
  then have "(1 :: rat) \<le> of_int (round_half_even (x / 2 ^ e))"
    by simp
  moreover have "(1 :: rat) \<le> 2 ^ e"
    by simp
  ultimately have "(1 :: rat) * 1 \<le> of_int (round_half_even (x / 2 ^ e)) * 2 ^ e"
    by (intro mult_mono) simp_all
  with assms show ?thesis
    by (simp add: round_f32_def e_def Let_def)
qed

lemma to_float_pos: "0 < n \<Longrightarrow> 0 < to_float n"
proof (cases "n < 2 ^ 24")
  case True
  moreover assume "0 < n"
  ultimately show ?thesis
    by (simp add: to_float_exact)
next
  case False
  then have "(2 :: rat) ^ 24 \<le> of_nat n"
    by (metis not_less of_nat_le_iff of_nat_numeral of_nat_power)
  then have "1 \<le> round_f32 (of_nat n)"
    by (rule round_f32_large)
  then have "of_int 1 \<le> round_f32 (of_nat n)"
    by simp
  then have "1 \<le> \<lfloor>round_f32 (of_nat n)\<rfloor>"
    by (simp only: le_floor_iff)
  then show ?thesis
    by (simp add: to_float_def)
qed

lemma iadd_0: "iadd 0 0 = 0" "0 < n \<Longrightarrow> 0 < iadd 0 n"
  by (simp_all add: iadd_def to_float_exact to_float_pos)

lemma true_divide_0: "b \<noteq> 0 \<Longrightarrow> true_divide 0 b = Val 0"
  by (simp add: true_divide_def round_f32_0_1_2)

subsection \<open>Auxiliary facts\<close>

lemma py_str_empty: "py_str [] = []"
  by (simp add: py_str_def)

lemma wer_update_lists:
  "wer_update (StrList ps) (StrList rs) = wer_loop (zip ps rs) 0 0"
  by (simp add: wer_update_def)

lemma wer_loop_exact:
  assumes "errors + (\<Sum>(p, r) \<leftarrow> pairs. edit_distance (str_split p) (str_split r)) \<le> 2 ^ 24"
    and "total' + (\<Sum>(p, r) \<leftarrow> pairs. length (str_split r)) \<le> 2 ^ 24"
  shows "wer_loop pairs errors total' =
     (errors + (\<Sum>(p, r) \<leftarrow> pairs. edit_distance (str_split p) (str_split r)),
      total' + (\<Sum>(p, r) \<leftarrow> pairs. length (str_split r)))"
  using assms
proof (induction pairs arbitrary: errors total')
  case Nil
  then show ?case by simp
next
  case (Cons pair pairs)
  obtain p r where pair: "pair = (p, r)"
    by (cases pair)
  define k where "k = edit_distance (str_split p) (str_split r)"
  define l where "l = length (str_split r)"
  define sk where "sk = (\<Sum>(p, r) \<leftarrow> pairs. edit_distance (str_split p) (str_split r))"
  define sl where "sl = (\<Sum>(p, r) \<leftarrow> pairs. length (str_split r))"
  from Cons.prems have bounds: "errors + (k + sk) \<le> 2 ^ 24" "total' + (l + sl) \<le> 2 ^ 24"
    by (simp_all add: pair k_def l_def sk_def sl_def)
  then have "iadd errors k = errors + k" "iadd total' l = total' + l"
    by (simp_all add: iadd_exact)
  moreover have "wer_loop pairs (errors + k) (total' + l) = (errors + k + sk, total' + l + sl)"
    unfolding sk_def sl_def using bounds
    by (intro Cons.IH) (simp_all add: sk_def sl_def)
  ultimately show ?case
    by (simp add: pair k_def l_def sk_def sl_def Let_def)
qed

lemma sum_snd_zip:
  assumes "length ps = length rs"
  shows "(\<Sum>(p, r) \<leftarrow> zip ps rs. f r) = (\<Sum>r \<leftarrow> rs. (f r :: nat))"
proof -
  have "(\<Sum>(p, r) \<leftarrow> zip ps rs. f r) = sum_list (map f (map snd (zip ps rs)))"
    by (simp add: case_prod_unfold comp_def)
  also have "map snd (zip ps rs) = rs"
    using assms by simp
  finally show ?thesis .
qed

lemma cell_diagonal: "cell X X n n = 0"
  by (induction n) simp_all

lemma edit_distance_same: "edit_distance X X = 0"
  by (simp add: edit_distance_def cell_diagonal)

lemma edit_distance_empty:
  "edit_distance [] B = length B" "edit_distance A [] = length A"
  by (cases "length B") (simp_all add: edit_distance_def)

lemma cell_le_max: "cell A B i j \<le> max i j"
  by (induction A B i j rule: cell.induct) auto

lemma edit_distance_le_max: "edit_distance A B \<le> max (length A) (length B)"
  by (simp add: edit_distance_def cell_le_max)

lemma split_words_spaces:
  "\<forall>c \<in> set cs. isspace c \<Longrightarrow> split_words [] cs = []"
  by (induction cs) simp_all

lemma str_split_spaces: "\<forall>c \<in> set s. isspace c \<Longrightarrow> str_split s = []"
  by (simp add: str_split_def split_words_spaces)

lemma str_split_empty: "str_split [] = []"
  by (simp add: str_split_def)

lemma sum_list_map_mset:
  fixes f :: "'a \<Rightarrow> nat"
  assumes "mset xs = mset ys"
  shows "sum_list (map f xs) = sum_list (map f ys)"
proof -
  have "sum_list (map f xs) = sum_mset (image_mset f (mset xs))"
    by (simp flip: sum_mset_sum_list)
  also have "\<dots> = sum_mset (image_mset f (mset ys))"
    using assms by simp
  also have "\<dots> = sum_list (map f ys)"
    by (simp flip: sum_mset_sum_list)
  finally show ?thesis .
qed

lemma zip_take_min:
  "zip (take (min (length ps) (length rs)) ps) (take (min (length ps) (length rs)) rs) = zip ps rs"
proof -
  have "zip (take (min (length ps) (length rs)) ps) (take (min (length ps) (length rs)) rs) =
        take (min (length ps) (length rs)) (zip ps rs)"
    by (simp only: take_zip)
  also have "\<dots> = zip ps rs"
    by simp
  finally show ?thesis .
qed

lemma split_words_repeat:
  "split_words [] (repeat_str (py_str ''a '') n) = replicate n (py_str ''a'')"
  by (induction n) (simp_all add: py_str_def isspace_def)

lemma length_str_split_repeat: "length (str_split (repeat_str (py_str ''a '') n)) = n"
  by (simp add: str_split_def split_words_repeat)

lemma str_split_examples:
  "str_split (py_str ''this is the prediction'') =
     [py_str ''this'', py_str ''is'', py_str ''the'', py_str ''prediction'']"
  "str_split (py_str ''there is an other sample'') =
     [py_str ''there'', py_str ''is'', py_str ''an'', py_str ''other'', py_str ''sample'']"
  "str_split (py_str ''this is the reference'') =
     [py_str ''this'', py_str ''is'', py_str ''the'', py_str ''reference'']"
  "str_split (py_str ''there is another one'') =
     [py_str ''there'', py_str ''is'', py_str ''another'', py_str ''one'']"
  "str_split (py_str ''a b c'') = [py_str ''a'', py_str ''b'', py_str ''c'']"
  "str_split (py_str ''a b'') = [py_str ''a'', py_str ''b'']"
  "str_split (py_str ''c d'') = [py_str ''c'', py_str ''d'']"
  "str_split (py_str ''a'') = [py_str ''a'']"
  "str_split (py_str ''c'') = [py_str ''c'']"
  "str_split (py_str ''x'') = [py_str ''x'']"
  by (simp_all add: str_split_def py_str_def isspace_def)

lemma edit_distance_examples:
  "edit_distance [py_str ''this'', py_str ''is'', py_str ''the'', py_str ''prediction'']
     [py_str ''this'', py_str ''is'', py_str ''the'', py_str ''reference''] = 1"
  "edit_distance [py_str ''there'', py_str ''is'', py_str ''an'', py_str ''other'', py_str ''sample'']
     [py_str ''there'', py_str ''is'', py_str ''another'', py_str ''one''] = 3"
  "edit_distance [py_str ''a'', py_str ''b'', py_str ''c''] [py_str ''a''] = 2"
  "edit_distance [py_str ''a'', py_str ''b''] [py_str ''a''] = 1"
  "edit_distance [py_str ''c''] [py_str ''c'', py_str ''d''] = 1"
  "edit_distance [py_str ''x''] [py_str ''a''] = 1"
  by (simp_all add: edit_distance_def py_str_def)

subsection \<open>The claims\<close>

text \<open>
  C1. On the batch of the docstring, predictions \<open>["this is the prediction", "there is
  an other sample"]\<close> against references \<open>["this is the reference", "there is another
  one"]\<close>, the totals are 4 edit operations and 8 reference tokens, and
  \<open>word_error_rate\<close> returns one half.
\<close>

theorem word_error_rate_docstring_example:
  "wer_update
     (StrList [py_str ''this is the prediction'', py_str ''there is an other sample''])
     (StrList [py_str ''this is the reference'', py_str ''there is another one'']) = (4, 8)
   \<and> word_error_rate
     (StrList [py_str ''this is the prediction'', py_str ''there is an other sample''])
     (StrList [py_str ''this is the reference'', py_str ''there is another one'']) = Val (1 / 2)"
  by (simp add: word_error_rate_def wer_compute_def true_divide_def wer_update_lists
      str_split_examples edit_distance_examples iadd_exact round_f32_examples)

text \<open>
  C2. On two lists of the same length, when the sum of the edit distances and the
  sum of the numbers of reference tokens are both at most \<open>2^24\<close>,
  \<open>_wer_update\<close> returns the sum of the edit distances between the tokens of each
  prediction and the tokens of its reference, and the sum of the numbers of tokens of
  the references. Beyond \<open>2^24\<close> the float accumulators round, and the totals
  returned are not the sums any more.
\<close>

theorem wer_update_totals:
  assumes "length ps = length rs"
    and "(\<Sum>(p, r) \<leftarrow> zip ps rs. edit_distance (str_split p) (str_split r)) \<le> 2 ^ 24"
    and "(\<Sum>r \<leftarrow> rs. length (str_split r)) \<le> 2 ^ 24"
  shows "wer_update (StrList ps) (StrList rs) =
     ((\<Sum>(p, r) \<leftarrow> zip ps rs. edit_distance (str_split p) (str_split r)),
      (\<Sum>r \<leftarrow> rs. length (str_split r)))"
proof -
  have "(\<Sum>(p, r) \<leftarrow> zip ps rs. length (str_split r)) = (\<Sum>r \<leftarrow> rs. length (str_split r))"
    using assms(1) by (rule sum_snd_zip)
  with assms(2,3) show ?thesis
    using wer_loop_exact [of 0 "zip ps rs" 0] by (simp add: wer_update_lists)
qed

theorem wer_update_totals_witness:
  "length [py_str ''a b'', py_str ''c''] = length [py_str ''a'', py_str ''c d''] \<and>
   wer_update (StrList [py_str ''a b'', py_str ''c'']) (StrList [py_str ''a'', py_str ''c d''])
     = (2, 3)"
  using wer_update_totals [of "[py_str ''a b'', py_str ''c'']" "[py_str ''a'', py_str ''c d'']"]
  by (simp add: str_split_examples edit_distance_examples)

text \<open>
  Without the bound the statement fails: for the prediction \<open>""\<close> and the reference
  \<open>"a " * 16777217\<close>, which has \<open>2^24 + 1\<close> tokens, the distance and the number of
  reference tokens are both 16777217, and \<open>_wer_update\<close> returns 16777216 twice.
\<close>

theorem wer_update_totals_counterexample:
  "length [py_str ''''] = length [repeat_str (py_str ''a '') 16777217] \<and>
   edit_distance (str_split (py_str ''''))
     (str_split (repeat_str (py_str ''a '') 16777217)) = 16777217 \<and>
   length (str_split (repeat_str (py_str ''a '') 16777217)) = 16777217 \<and>
   wer_update (StrList [py_str '''']) (StrList [repeat_str (py_str ''a '') 16777217])
     = (16777216, 16777216)"
  by (simp add: wer_update_lists py_str_empty str_split_empty edit_distance_empty
      length_str_split_repeat iadd_def to_float_exact to_float_examples)

text \<open>
  C3. When the total number of reference tokens is zero, the division does not fail:
  \<open>_wer_compute\<close> returns the not-a-number tensor when there are no errors either and
  the infinite one otherwise, and so does \<open>word_error_rate\<close>. On two empty strings the
  result is not-a-number.
\<close>

theorem wer_compute_zero_total:
  "wer_compute errors 0 = (if errors = 0 then NaN else PosInf) \<and>
   (snd (wer_update predictions references) = 0 \<longrightarrow>
      word_error_rate predictions references =
        (if fst (wer_update predictions references) = 0 then NaN else PosInf)) \<and>
   word_error_rate (Str (py_str [])) (Str (py_str [])) = NaN"
  by (auto simp: word_error_rate_def wer_compute_def true_divide_def wer_update_def
      py_str_empty str_split_empty edit_distance_empty iadd_0 split: prod.splits)

theorem wer_compute_zero_total_witness:
  "snd (wer_update (Str []) (Str [])) = 0 \<and> word_error_rate (Str []) (Str []) = NaN"
  using wer_compute_zero_total [of 0 "Str []" "Str []"]
  by (simp add: wer_update_def str_split_empty edit_distance_empty iadd_0)

text \<open>
  C4. Lists of different lengths raise nothing: \<open>_wer_update\<close> returns what it returns
  on the two lists cut to the length of the shorter one.
\<close>

theorem wer_update_truncates:
  "wer_update (StrList ps) (StrList rs) =
   wer_update (StrList (take (min (length ps) (length rs)) ps))
              (StrList (take (min (length ps) (length rs)) rs))"
  by (simp only: wer_update_lists zip_take_min)

text \<open>
  C5. A bare string stands for the list that holds it, on either side or on both.
\<close>

theorem word_error_rate_single_string:
  "word_error_rate (Str p) (Str r) = word_error_rate (StrList [p]) (StrList [r]) \<and>
   word_error_rate (Str p) (StrList rs) = word_error_rate (StrList [p]) (StrList rs) \<and>
   word_error_rate (StrList ps) (Str r) = word_error_rate (StrList ps) (StrList [r])"
  by (simp add: word_error_rate_def wer_update_def)

text \<open>
  C6. When the sum of the edit distances and the sum of the numbers of
  reference tokens of a batch are both at most \<open>2^24\<close>, the rate does not depend on the
  order of its pairs: a list of (prediction, reference) pairs with the same elements,
  counted with multiplicity, gets the same rate. Beyond \<open>2^24\<close> the sums held in the
  float accumulators depend on the order of the additions.
\<close>

theorem word_error_rate_reorder:
  assumes "mset batch' = mset batch"
    and "(\<Sum>(p, r) \<leftarrow> batch. edit_distance (str_split p) (str_split r)) \<le> 2 ^ 24"
    and "(\<Sum>(p, r) \<leftarrow> batch. length (str_split r)) \<le> 2 ^ 24"
  shows "word_error_rate (StrList (map fst batch')) (StrList (map snd batch')) =
         word_error_rate (StrList (map fst batch)) (StrList (map snd batch))"
proof -
  let ?k = "\<lambda>(p, r). edit_distance (str_split p) (str_split r)"
  let ?l = "\<lambda>(p, r). length (str_split r)"
  have sums: "sum_list (map ?k batch') = sum_list (map ?k batch)"
    "sum_list (map ?l batch') = sum_list (map ?l batch)"
    using assms(1) by (rule sum_list_map_mset)+
  have "wer_loop batch 0 0 = (sum_list (map ?k batch), sum_list (map ?l batch))"
    using wer_loop_exact [of 0 batch 0] assms(2,3) by simp
  moreover have "wer_loop batch' 0 0 = (sum_list (map ?k batch'), sum_list (map ?l batch'))"
    using wer_loop_exact [of 0 batch' 0] assms(2,3) sums by simp
  ultimately show ?thesis
    using sums by (simp add: word_error_rate_def wer_update_lists zip_map_fst_snd)
qed

theorem word_error_rate_reorder_witness:
  "mset [(py_str ''c'', py_str ''c d''), (py_str ''a b'', py_str ''a'')] =
   mset [(py_str ''a b'', py_str ''a''), (py_str ''c'', py_str ''c d'')] \<and>
   word_error_rate (StrList [py_str ''c'', py_str ''a b'']) (StrList [py_str ''c d'', py_str ''a'']) =
   word_error_rate (StrList [py_str ''a b'', py_str ''c'']) (StrList [py_str ''a'', py_str ''c d''])"
  using word_error_rate_reorder
    [of "[(py_str ''c'', py_str ''c d''), (py_str ''a b'', py_str ''a'')]"
        "[(py_str ''a b'', py_str ''a''), (py_str ''c'', py_str ''c d'')]"]
  by (simp add: add_mset_commute str_split_examples edit_distance_examples)

text \<open>
  Without the bound the statement fails. Take the pairs \<open>("", "a " * 16777216)\<close>,
  \<open>("x", "a")\<close> and \<open>("a", "a")\<close>. In this order both totals stay at \<open>2^24\<close> and the
  rate is 1. With the long pair last, the errors come to \<open>2^24\<close> and the reference
  tokens to \<open>2^24 + 2\<close>, and the rate is \<open>8388607 / 8388608\<close>.
\<close>

theorem word_error_rate_reorder_counterexample:
  "mset [(py_str ''x'', py_str ''a''), (py_str ''a'', py_str ''a''),
         (py_str '''', repeat_str (py_str ''a '') 16777216)] =
   mset [(py_str '''', repeat_str (py_str ''a '') 16777216),
         (py_str ''x'', py_str ''a''), (py_str ''a'', py_str ''a'')] \<and>
   word_error_rate
     (StrList [py_str '''', py_str ''x'', py_str ''a''])
     (StrList [repeat_str (py_str ''a '') 16777216, py_str ''a'', py_str ''a'']) = Val 1 \<and>
   word_error_rate
     (StrList [py_str ''x'', py_str ''a'', py_str ''''])
     (StrList [py_str ''a'', py_str ''a'', repeat_str (py_str ''a '') 16777216])
     = Val (8388607 / 8388608)"
proof -
  have order1: "wer_update
     (StrList [py_str '''', py_str ''x'', py_str ''a''])
     (StrList [repeat_str (py_str ''a '') 16777216, py_str ''a'', py_str ''a''])
     = (16777216, 16777216)"
    by (simp add: wer_update_lists py_str_empty str_split_empty edit_distance_empty
        edit_distance_same length_str_split_repeat str_split_examples edit_distance_examples
        iadd_def to_float_exact to_float_examples)
  have order2: "wer_update
     (StrList [py_str ''x'', py_str ''a'', py_str ''''])
     (StrList [py_str ''a'', py_str ''a'', repeat_str (py_str ''a '') 16777216])
     = (16777216, 16777218)"
    by (simp add: wer_update_lists py_str_empty str_split_empty edit_distance_empty
        edit_distance_same length_str_split_repeat str_split_examples edit_distance_examples
        iadd_def to_float_exact to_float_examples)
  show ?thesis
    by (simp add: word_error_rate_def wer_compute_def true_divide_def order1 order2
        round_f32_0_1_2 round_f32_examples add_mset_commute)
qed

text \<open>
  C7. The distance from a token sequence to itself is 0, and a string with at least
  one token scored against itself has rate 0.
\<close>

theorem word_error_rate_identity:
  "edit_distance X X = 0 \<and>
   (str_split p \<noteq> [] \<longrightarrow> word_error_rate (Str p) (Str p) = Val 0)"
proof -
  have "word_error_rate (Str p) (Str p) = Val 0" if "str_split p \<noteq> []"
  proof -
    from that have "0 < iadd 0 (length (str_split p))"
      by (simp add: iadd_0)
    then show ?thesis
      by (simp add: word_error_rate_def wer_update_def wer_compute_def edit_distance_same
          iadd_0 true_divide_0)
  qed
  then show ?thesis
    by (simp add: edit_distance_same)
qed

theorem word_error_rate_identity_witness:
  "str_split (py_str ''a b c'') \<noteq> [] \<and>
   word_error_rate (Str (py_str ''a b c'')) (Str (py_str ''a b c'')) = Val 0"
  using word_error_rate_identity [of "[py_str ''a'']" "py_str ''a b c''"]
  by (simp add: str_split_examples)

text \<open>
  C8. \<open>wer\<close> returns the value of \<open>word_error_rate\<close> on the same arguments, and what
  it does besides is to issue one deprecation warning.
\<close>

theorem wer_forwards:
  "snd (wer predictions references) = word_error_rate predictions references \<and>
   length (fst (wer predictions references)) = 1 \<and>
   snd (hd (fst (wer predictions references))) = DeprecationWarning"
  by (simp add: wer_def)

text \<open>
  C9. The rate can be more than 1: the prediction \<open>"a b c"\<close> against the reference
  \<open>"a"\<close> has rate 2. The errors of a pair are at most the length of the longer
  sequence, and only the reference tokens are in the denominator.
\<close>

theorem word_error_rate_exceeds_one:
  "word_error_rate (StrList [py_str ''a b c'']) (StrList [py_str ''a'']) = Val 2 \<and>
   (\<exists>predictions references q.
      word_error_rate predictions references = Val q \<and> 1 < q) \<and>
   edit_distance A B \<le> max (length A) (length B)"
proof -
  have two: "word_error_rate (StrList [py_str ''a b c'']) (StrList [py_str ''a'']) = Val 2"
    by (simp add: word_error_rate_def wer_compute_def true_divide_def wer_update_lists
        str_split_examples edit_distance_examples iadd_exact round_f32_0_1_2)
  have "(1::rat) < 2"
    by simp
  with two have "\<exists>predictions references q.
      word_error_rate predictions references = Val q \<and> 1 < q"
    by blast
  with two show ?thesis
    by (simp add: edit_distance_le_max)
qed

text \<open>
  C10. A string made of whitespace only has no token, so two such strings give the
  totals (0, 0) and the result of \<open>word_error_rate\<close> on two empty strings.
\<close>

theorem word_error_rate_whitespace_only:
  assumes "\<forall>c \<in> set p. isspace c" and "\<forall>c \<in> set r. isspace c"
  shows "str_split p = [] \<and> str_split r = [] \<and>
         wer_update (Str p) (Str r) = (0, 0) \<and>
         word_error_rate (Str p) (Str r) = word_error_rate (Str []) (Str [])"
  using assms
  by (simp add: str_split_spaces str_split_empty word_error_rate_def wer_update_def
      edit_distance_empty iadd_0)

theorem word_error_rate_whitespace_only_witness:
  "isspace 32 \<and> isspace 9 \<and> isspace 160 \<and>
   str_split [32, 32] = [] \<and> str_split [9, 160] = [] \<and>
   wer_update (Str [32, 32]) (Str [9, 160]) = (0, 0) \<and>
   word_error_rate (Str [32, 32]) (Str [9, 160]) = word_error_rate (Str []) (Str [])"
  using word_error_rate_whitespace_only [of "[32, 32]" "[9, 160]"]
  by (simp add: isspace_def)

end
